theory Spec2Isabelle
  imports Main
begin

section \<open>Strings\<close>

text \<open>
  Python's \<open>str\<close> is modelled by \<open>string\<close>. The embedding is exact for ASCII text;
  a character outside ASCII stands in a string as the bytes of its UTF-8 encoding, is left
  alone by \<open>lower\<close>, is no white space, no digit and no word character.
\<close>

definition is_digit :: "char \<Rightarrow> bool" where
  "is_digit c = (c \<in> set ''0123456789'')"

definition is_upper :: "char \<Rightarrow> bool" where
  "is_upper c = (c \<in> set ''ABCDEFGHIJKLMNOPQRSTUVWXYZ'')"

definition is_lower :: "char \<Rightarrow> bool" where
  "is_lower c = (c \<in> set ''abcdefghijklmnopqrstuvwxyz'')"

text \<open>\<open>\w\<close> of the \<open>re\<close> module.\<close>

definition is_word_char :: "char \<Rightarrow> bool" where
  "is_word_char c = (is_digit c \<or> is_upper c \<or> is_lower c \<or> c = CHR ''_'')"

text \<open>The characters \<open>str.strip()\<close> removes: tab, line feed, vertical tab, form feed,
  carriage return, the four separators \<open>0x1C\<close> to \<open>0x1F\<close> and the blank.\<close>

definition is_space :: "char \<Rightarrow> bool" where
  "is_space c = (c \<in> set [CHR 0x09, CHR 0x0A, CHR 0x0B, CHR 0x0C, CHR 0x0D,
                           CHR 0x1C, CHR 0x1D, CHR 0x1E, CHR 0x1F, CHR 0x20])"

definition lower_char :: "char \<Rightarrow> char" where
  "lower_char c = (if is_upper c then char_of (of_char c + (32::nat)) else c)"

definition lower :: "string \<Rightarrow> string" where
  "lower s = map lower_char s"

definition strip :: "string \<Rightarrow> string" where
  "strip s = rev (dropWhile is_space (rev (dropWhile is_space s)))"

fun starts_with :: "string \<Rightarrow> string \<Rightarrow> bool" where
  "starts_with [] s = True"
| "starts_with (p # ps) [] = False"
| "starts_with (p # ps) (c # cs) = (p = c \<and> starts_with ps cs)"

text \<open>\<open>sub in s\<close>.\<close>

fun contains :: "string \<Rightarrow> string \<Rightarrow> bool" where
  "contains sub [] = (sub = [])"
| "contains sub (c # cs) = (starts_with sub (c # cs) \<or> contains sub cs)"

section \<open>The regular expressions of the scripts\<close>

text \<open>
  The scripts only ask whether \<open>re.search\<close> finds a match, for patterns built from
  literals, \<open>\b\<close>, \<open>\d+\<close>, the lazy \<open>.*?\<close>, alternation and sequence. A matcher
  state is the character before the current position, if any, and the rest of the
  subject; \<open>rx_step\<close> lists every state a match of the pattern can end in, so a match
  exists iff the list is not empty (then it does not matter that \<open>.*?\<close> is lazy).
\<close>

datatype rx =
    Lit string
  | WordB
  | Digits
  | DotStar
  | Alt rx rx
  | Seq rx rx

type_synonym rx_state = "char option \<times> string"

text \<open>With \<open>re.IGNORECASE\<close> (the flag \<open>ic\<close>) a letter matches both of its cases.\<close>

definition ch_eq :: "bool \<Rightarrow> char \<Rightarrow> char \<Rightarrow> bool" where
  "ch_eq ic p c = (if ic then lower_char p = lower_char c else p = c)"

fun lit_match :: "bool \<Rightarrow> string \<Rightarrow> rx_state \<Rightarrow> rx_state option" where
  "lit_match ic [] st = Some st"
| "lit_match ic (p # ps) (b, []) = None"
| "lit_match ic (p # ps) (b, c # cs) =
     (if ch_eq ic p c then lit_match ic ps (Some c, cs) else None)"

definition word_before :: "rx_state \<Rightarrow> bool" where
  "word_before st = (case fst st of None \<Rightarrow> False | Some c \<Rightarrow> is_word_char c)"

definition word_after :: "rx_state \<Rightarrow> bool" where
  "word_after st = (case snd st of [] \<Rightarrow> False | c # _ \<Rightarrow> is_word_char c)"

fun dot_star :: "rx_state \<Rightarrow> rx_state list" where
  "dot_star (b, []) = [(b, [])]"
| "dot_star (b, c # cs) =
     (b, c # cs) # (if c = CHR 0x0A then [] else dot_star (Some c, cs))"

fun digits_star :: "rx_state \<Rightarrow> rx_state list" where
  "digits_star (b, []) = [(b, [])]"
| "digits_star (b, c # cs) =
     (b, c # cs) # (if is_digit c then digits_star (Some c, cs) else [])"

fun rx_step :: "bool \<Rightarrow> rx \<Rightarrow> rx_state \<Rightarrow> rx_state list" where
  "rx_step ic (Lit l) st = (case lit_match ic l st of None \<Rightarrow> [] | Some st' \<Rightarrow> [st'])"
| "rx_step ic WordB st = (if word_before st \<noteq> word_after st then [st] else [])"
| "rx_step ic Digits (b, []) = []"
| "rx_step ic Digits (b, c # cs) = (if is_digit c then digits_star (Some c, cs) else [])"
| "rx_step ic DotStar st = dot_star st"
| "rx_step ic (Alt r1 r2) st = rx_step ic r1 st @ rx_step ic r2 st"
| "rx_step ic (Seq r1 r2) st = concat (map (rx_step ic r2) (rx_step ic r1 st))"

fun search_from :: "bool \<Rightarrow> rx \<Rightarrow> rx_state \<Rightarrow> bool" where
  "search_from ic r (b, []) = (rx_step ic r (b, []) \<noteq> [])"
| "search_from ic r (b, c # cs) =
     (rx_step ic r (b, c # cs) \<noteq> [] \<or> search_from ic r (Some c, cs))"

text \<open>\<open>re.search(pattern, s, flags)\<close> read as a truth value.\<close>

definition re_search :: "bool \<Rightarrow> rx \<Rightarrow> string \<Rightarrow> bool" where
  "re_search ic r s = search_from ic r (None, s)"

text \<open>\<open>\bphrase\b\<close>.\<close>

definition phrase :: "string \<Rightarrow> rx" where
  "phrase w = Seq WordB (Seq (Lit w) WordB)"

section \<open>Aside detection (\<open>heuristic_asides.py\<close>)\<close>

definition TRIGGER_PHRASES :: "rx list" where
  "TRIGGER_PHRASES =
    [phrase ''also'',
     phrase ''oh'',
     phrase ''by the way'',
     phrase ''by the way'',
     phrase ''reminds me of'',
     phrase ''speaking of'',
     phrase ''should look into'',
     phrase ''could explore'',
     phrase ''might want to'',
     phrase ''we should'',
     phrase ''on a side note'',
     phrase ''tangentially'',
     phrase ''on a related note'',
     phrase ''while we're at it'',
     phrase ''while i'm thinking'',
     phrase ''idea:'',
     phrase ''thought:'']"

definition IGNORE_PATTERNS :: "rx list" where
  "IGNORE_PATTERNS =
    [Seq WordB (Seq (Lit ''also'') (Seq WordB (Seq DotStar
       (Alt (Lit ''but'') (Alt (Lit ''however'') (Lit ''although'')))))),
     Seq WordB (Seq (Lit ''speaking of'') (Seq DotStar (Seq (Lit ''we were'') WordB)))]"

definition immediate :: "rx list" where
  "immediate =
    [phrase ''need to'', phrase ''must'', phrase ''have to'', phrase ''start'',
     phrase ''begin'']"

definition infer_aside_type :: "string \<Rightarrow> string" where
  "infer_aside_type sentence =
     (if re_search False (Seq WordB (Seq (Lit ''P'') (Seq Digits WordB))) sentence
      then ''defer (project)''
      else if list_ex (\<lambda>pattern. re_search True pattern sentence) immediate
      then ''defer (project)''
      else ''later (standalone)'')"

text \<open>\<open>re.split(r'[.!?]+', text)\<close>: the pieces between the maximal runs of sentence
  terminators, the empty pieces at both ends included. The flag says that the
  character before was a terminator.\<close>

definition is_terminator :: "char \<Rightarrow> bool" where
  "is_terminator c = (c \<in> set ''.!?'')"

fun split_go :: "bool \<Rightarrow> string \<Rightarrow> string \<Rightarrow> string list" where
  "split_go insep cur [] = [cur]"
| "split_go insep cur (c # cs) =
     (if is_terminator c
      then (if insep then split_go True cur cs else cur # split_go True [] cs)
      else split_go False (cur @ [c]) cs)"

definition split_sentences :: "string \<Rightarrow> string list" where
  "split_sentences text = split_go False [] text"

definition is_ignored :: "string \<Rightarrow> bool" where
  "is_ignored sentence = list_ex (\<lambda>pattern. re_search True pattern sentence) IGNORE_PATTERNS"

text \<open>The inner loop over the trigger phrases, left by \<open>break\<close> at the first match.\<close>

fun trigger_loop :: "rx list \<Rightarrow> string \<Rightarrow> (string \<times> string) list" where
  "trigger_loop [] sentence = []"
| "trigger_loop (trigger # rest) sentence =
     (if re_search True trigger sentence
      then [(sentence, infer_aside_type sentence)]
      else trigger_loop rest sentence)"

text \<open>The loop over the sentences; its result is what the source appends to
  \<open>asides\<close>, in order.\<close>

fun detect_loop :: "string list \<Rightarrow> (string \<times> string) list" where
  "detect_loop [] = []"
| "detect_loop (raw # rest) =
     (let sentence = strip raw in
      if sentence = [] then detect_loop rest
      else if is_ignored sentence then detect_loop rest
      else trigger_loop TRIGGER_PHRASES sentence @ detect_loop rest)"

definition detect_asides :: "string \<Rightarrow> (string \<times> string) list" where
  "detect_asides text = detect_loop (split_sentences text)"

definition is_triggered :: "string \<Rightarrow> bool" where
  "is_triggered sentence = list_ex (\<lambda>trigger. re_search True trigger sentence) TRIGGER_PHRASES"

section \<open>More string operations\<close>

text \<open>\<open>s.split(sep)\<close> for a separator of one character.\<close>

fun split_char :: "char \<Rightarrow> string \<Rightarrow> string \<Rightarrow> string list" where
  "split_char sep cur [] = [cur]"
| "split_char sep cur (c # cs) =
     (if c = sep then cur # split_char sep [] cs else split_char sep (cur @ [c]) cs)"

text \<open>\<open>s.split(sep)\<close> for any separator that is not empty; \<open>cur\<close> is the piece being
  read.\<close>

function str_split :: "string \<Rightarrow> string \<Rightarrow> string \<Rightarrow> string list" where
  "str_split sep cur [] = [cur]"
| "str_split sep cur (c # cs) =
     (if sep \<noteq> [] \<and> starts_with sep (c # cs)
      then cur # str_split sep [] (drop (length sep - 1) cs)
      else str_split sep (cur @ [c]) cs)"
  by pat_completeness auto
termination
  by (relation "measure (\<lambda>(sep, cur, s). length s)") auto

text \<open>\<open>re.sub\<close> and \<open>str.replace\<close> with a literal pattern that is not empty and a
  literal replacement: every occurrence found from left to right, none overlapping.\<close>

function replace_all :: "string \<Rightarrow> string \<Rightarrow> string \<Rightarrow> string" where
  "replace_all pat rep [] = []"
| "replace_all pat rep (c # cs) =
     (if pat \<noteq> [] \<and> starts_with pat (c # cs)
      then rep @ replace_all pat rep (drop (length pat - 1) cs)
      else c # replace_all pat rep cs)"
  by pat_completeness auto
termination
  by (relation "measure (\<lambda>(pat, rep, s). length s)") auto

definition digit_val :: "char \<Rightarrow> nat" where
  "digit_val c = of_char c - 48"

text \<open>\<open>int(s)\<close> on a string of decimal digits.\<close>

definition nat_of_digits :: "string \<Rightarrow> nat" where
  "nat_of_digits ds = foldl (\<lambda>a c. 10 * a + digit_val c) 0 ds"

definition digit_char :: "nat \<Rightarrow> char" where
  "digit_char d = char_of (48 + d)"

fun decimal :: "nat \<Rightarrow> string" where
  "decimal n = (if n < 10 then [digit_char n] else decimal (n div 10) @ [digit_char (n mod 10)])"

text \<open>The format \<open>{n:03d}\<close> for a number that is not negative: at least three
  digits.\<close>

definition fmt03 :: "nat \<Rightarrow> string" where
  "fmt03 n = replicate (3 - length (decimal n)) CHR ''0'' @ decimal n"

text \<open>\<open>re.search(k + r'(\d+)', s).group(1)\<close> for a character \<open>k\<close>: the digits after
  the leftmost \<open>k\<close> that a digit follows.\<close>

fun search_digits :: "char \<Rightarrow> string \<Rightarrow> string option" where
  "search_digits k [] = None"
| "search_digits k (c # cs) =
     (if c = k \<and> takeWhile is_digit cs \<noteq> [] then Some (takeWhile is_digit cs)
      else search_digits k cs)"

text \<open>\<open>re.search(lit + '(' + class + '+)', s).group(1)\<close>: the longest run of characters
  of the class after the leftmost occurrence of the literal that such a character
  follows.\<close>

fun search_run :: "string \<Rightarrow> (char \<Rightarrow> bool) \<Rightarrow> string \<Rightarrow> string option" where
  "search_run lit cls [] = None"
| "search_run lit cls (c # cs) =
     (if starts_with lit (c # cs) \<and> takeWhile cls (drop (length lit) (c # cs)) \<noteq> []
      then Some (takeWhile cls (drop (length lit) (c # cs)))
      else search_run lit cls cs)"

section \<open>Shell patterns of \<open>pathlib\<close>\<close>

text \<open>
  A pattern for one path component: \<open>*\<close>, \<open>?\<close>, the class \<open>[0-9]\<close> and literal
  characters. Another bracket expression, a \<open>/\<close> or \<open>**\<close> in a pattern is outside this
  model; the fixed patterns of the scripts have none, and a project identifier that is a
  \<open>P\<close> followed by digits brings none.
\<close>

datatype gtok = GChar char | GDigit | GStar | GQuest

function glob_parse :: "string \<Rightarrow> gtok list" where
  "glob_parse [] = []"
| "glob_parse (c # cs) =
     (if c = CHR ''*'' then GStar # glob_parse cs
      else if c = CHR ''?'' then GQuest # glob_parse cs
      else if c = CHR ''['' \<and> take 4 cs = ''0-9]'' then GDigit # glob_parse (drop 4 cs)
      else GChar c # glob_parse cs)"
  by pat_completeness auto
termination
  by (relation "measure length") auto

fun gmatch :: "gtok list \<Rightarrow> string \<Rightarrow> bool" where
  "gmatch [] s = (s = [])"
| "gmatch (GStar # ts) [] = gmatch ts []"
| "gmatch (GStar # ts) (c # cs) = (gmatch ts (c # cs) \<or> gmatch (GStar # ts) cs)"
| "gmatch (GChar p # ts) [] = False"
| "gmatch (GChar p # ts) (c # cs) = (p = c \<and> gmatch ts cs)"
| "gmatch (GDigit # ts) [] = False"
| "gmatch (GDigit # ts) (c # cs) = (is_digit c \<and> gmatch ts cs)"
| "gmatch (GQuest # ts) [] = False"
| "gmatch (GQuest # ts) (c # cs) = gmatch ts cs"

definition fnmatch :: "string \<Rightarrow> string \<Rightarrow> bool" where
  "fnmatch name pattern = gmatch (glob_parse pattern) name"

section \<open>The workspace on disk\<close>

text \<open>
  A path is the list of its components below the workspace root, which is the empty
  path and always a directory. The file system is the list of its entries in the order
  a directory scan yields them; a file has its text and its modification time, a
  directory its modification time (in microseconds; the model does not advance the time
  of a directory when an entry is added to it). In a well-formed file system the paths
  are distinct and every entry's parent is the root or a directory. Symbolic links,
  permissions and \<open>..\<close> components are outside the model.
\<close>

type_synonym path = "string list"

datatype node = File string int | Dir int

type_synonym filesys = "(path \<times> node) list"

datatype error =
    FileNotFoundError
  | NotADirectoryError
  | IsADirectoryError
  | FileExistsError
  | IndexError
  | ReError
  | CalledProcessError
  | OSError

definition ACTIVE_FILE :: path where
  "ACTIVE_FILE = [''.active'']"

definition PROJECTS_DIR :: path where
  "PROJECTS_DIR = [''projects'']"

definition MEMORY_DIR :: path where
  "MEMORY_DIR = [''memory'']"

definition is_dir :: "filesys \<Rightarrow> path \<Rightarrow> bool" where
  "is_dir fs p = (p = [] \<or> (case map_of fs p of Some (Dir _) \<Rightarrow> True | _ \<Rightarrow> False))"

definition is_file :: "filesys \<Rightarrow> path \<Rightarrow> bool" where
  "is_file fs p = (case map_of fs p of Some (File _ _) \<Rightarrow> True | _ \<Rightarrow> False)"

text \<open>\<open>p.exists()\<close>: the entry is there and stands in a directory.\<close>

definition path_exists :: "filesys \<Rightarrow> path \<Rightarrow> bool" where
  "path_exists fs p = (p = [] \<or> (is_dir fs (butlast p) \<and> map_of fs p \<noteq> None))"

text \<open>The error of a system call on \<open>p\<close> whose parent is no directory: \<open>ENOTDIR\<close> when
  a file stands on the way, \<open>ENOENT\<close> otherwise.\<close>

definition parent_error :: "filesys \<Rightarrow> path \<Rightarrow> error option" where
  "parent_error fs p =
     (if is_dir fs (butlast p) then None
      else if list_ex (\<lambda>n. is_file fs (take n p)) [1..<length p] then Some NotADirectoryError
      else Some FileNotFoundError)"

fun fs_put :: "filesys \<Rightarrow> path \<Rightarrow> node \<Rightarrow> filesys" where
  "fs_put [] p n = [(p, n)]"
| "fs_put ((q, m) # rest) p n = (if q = p then (p, n) # rest else (q, m) # fs_put rest p n)"

definition read_text :: "filesys \<Rightarrow> path \<Rightarrow> error + string" where
  "read_text fs p =
     (case parent_error fs p of Some e \<Rightarrow> Inl e
      | None \<Rightarrow>
        (if p = [] then Inl IsADirectoryError
         else case map_of fs p of
                None \<Rightarrow> Inl FileNotFoundError
              | Some (Dir _) \<Rightarrow> Inl IsADirectoryError
              | Some (File text _) \<Rightarrow> Inr text))"

definition write_text :: "filesys \<Rightarrow> path \<Rightarrow> string \<Rightarrow> int \<Rightarrow> error + filesys" where
  "write_text fs p text t =
     (case parent_error fs p of Some e \<Rightarrow> Inl e
      | None \<Rightarrow>
        (if is_dir fs p then Inl IsADirectoryError else Inr (fs_put fs p (File text t))))"

text \<open>\<open>p.mkdir(exist_ok=True)\<close>.\<close>

definition mkdir_exist_ok :: "filesys \<Rightarrow> path \<Rightarrow> int \<Rightarrow> error + filesys" where
  "mkdir_exist_ok fs p t =
     (case parent_error fs p of Some e \<Rightarrow> Inl e
      | None \<Rightarrow>
        (if is_dir fs p then Inr fs
         else if map_of fs p \<noteq> None then Inl FileExistsError
         else Inr (fs_put fs p (Dir t))))"

text \<open>\<open>p.stat().st_mtime\<close>, read as a \<open>datetime\<close>, of an entry that a scan has
  yielded.\<close>

definition st_mtime :: "filesys \<Rightarrow> path \<Rightarrow> error + int" where
  "st_mtime fs p =
     (case map_of fs p of
        None \<Rightarrow> Inl FileNotFoundError
      | Some (Dir t) \<Rightarrow> Inr t
      | Some (File _ t) \<Rightarrow> Inr t)"

text \<open>\<open>base / s\<close>: \<open>pathlib\<close> splits \<open>s\<close> at every \<open>/\<close> and drops the empty components
  and the components \<open>.\<close>.\<close>

definition path_join :: "path \<Rightarrow> string \<Rightarrow> path" where
  "path_join base s = base @ filter (\<lambda>c. c \<noteq> [] \<and> c \<noteq> ''.'') (split_char CHR ''/'' [] s)"

text \<open>\<open>dir.glob(pattern)\<close> for a pattern of one component: the entries of \<open>dir\<close> whose
  name matches.\<close>

definition glob :: "filesys \<Rightarrow> path \<Rightarrow> string \<Rightarrow> path list" where
  "glob fs dir pattern =
     (if is_dir fs dir
      then filter (\<lambda>p. p \<noteq> [] \<and> butlast p = dir \<and> fnmatch (last p) pattern) (map fst fs)
      else [])"

text \<open>\<open>dir.rglob(pattern)\<close>: the entries at any depth below \<open>dir\<close> whose name
  matches.\<close>

definition rglob :: "filesys \<Rightarrow> path \<Rightarrow> string \<Rightarrow> path list" where
  "rglob fs dir pattern =
     (if is_dir fs dir
      then filter (\<lambda>p. length dir < length p \<and> take (length dir) p = dir
                         \<and> fnmatch (last p) pattern) (map fst fs)
      else [])"

section \<open>Identifier allocation (\<open>gtd_commands.py\<close>)\<close>

text \<open>The loop of \<open>get_next_id\<close> over the scanned paths: the numbers it collects in
  \<open>ids\<close>.\<close>

fun collect_ids :: "string \<Rightarrow> path list \<Rightarrow> nat list" where
  "collect_ids prefix [] = []"
| "collect_ids prefix (path # rest) =
     (case (if prefix = ''K'' then search_digits CHR ''K'' (last path)
            else search_digits CHR ''P'' (last path)) of
        None \<Rightarrow> collect_ids prefix rest
      | Some digits \<Rightarrow> nat_of_digits digits # collect_ids prefix rest)"

definition get_next_id :: "string \<Rightarrow> filesys \<Rightarrow> string" where
  "get_next_id prefix fs =
     (let pattern = (if prefix = ''K'' then ''K[0-9]*.md'' else ''P[0-9]*'');
          folder = PROJECTS_DIR;
          ids = collect_ids prefix (rglob fs folder pattern);
          next_id = (if ids \<noteq> [] then Max (set ids) + 1 else 1)
      in prefix @ fmt03 next_id)"

section \<open>Replacement templates of \<open>re.sub\<close>\<close>

text \<open>
  \<open>re.sub\<close> reads its replacement as a template: a backslash starts an escape. The
  patterns of the scripts have no group, so the only group a template can name is the
  whole match \<open>m\<close>. A character that an octal escape yields stands as its UTF-8 bytes.
  A group name that is neither an identifier nor a string of digits is an error here (as
  it is from Python 3.12 on).
\<close>

definition is_octal :: "char \<Rightarrow> bool" where
  "is_octal c = (c \<in> set ''01234567'')"

definition utf8 :: "nat \<Rightarrow> string" where
  "utf8 n = (if n < 128 then [char_of n] else [char_of (192 + n div 64), char_of (128 + n mod 64)])"

definition simple_escape :: "char \<Rightarrow> char option" where
  "simple_escape c =
     (if c = CHR ''a'' then Some (CHR 0x07)
      else if c = CHR ''b'' then Some (CHR 0x08)
      else if c = CHR ''f'' then Some (CHR 0x0C)
      else if c = CHR ''n'' then Some (CHR 0x0A)
      else if c = CHR ''r'' then Some (CHR 0x0D)
      else if c = CHR ''t'' then Some (CHR 0x09)
      else if c = CHR ''v'' then Some (CHR 0x0B)
      else if c = CHR 0x5C then Some (CHR 0x5C)
      else None)"

definition is_identifier :: "string \<Rightarrow> bool" where
  "is_identifier name =
     (case name of [] \<Rightarrow> False
      | c # cs \<Rightarrow> (is_upper c \<or> is_lower c \<or> c = CHR ''_'') \<and> list_all is_word_char cs)"

text \<open>What \<open>\g\<close> followed by \<open>rest\<close> stands for, and what is left of the template.\<close>

definition group_ref :: "string \<Rightarrow> string \<Rightarrow> error + string \<times> string" where
  "group_ref m rest =
     (case rest of
        [] \<Rightarrow> Inl ReError
      | c # cs \<Rightarrow>
        (if c \<noteq> CHR ''<'' then Inl ReError
         else let name = takeWhile (\<lambda>x. x \<noteq> CHR ''>'') cs;
                  after = dropWhile (\<lambda>x. x \<noteq> CHR ''>'') cs
              in if after = [] then Inl ReError
                 else if name = [] then Inl ReError
                 else if is_identifier name then Inl IndexError
                 else if list_all is_digit name \<and> nat_of_digits name = 0 then Inr (m, tl after)
                 else Inl ReError))"

function expand_template :: "string \<Rightarrow> string \<Rightarrow> error + string" where
  "expand_template m [] = Inr []"
| "expand_template m (c # cs) =
     (if c \<noteq> CHR 0x5C then map_sum id ((#) c) (expand_template m cs)
      else case cs of
        [] \<Rightarrow> Inl ReError
      | d # ds \<Rightarrow>
        (if d = CHR ''g'' then
           (case group_ref m ds of
              Inl e \<Rightarrow> Inl e
            | Inr (text, rest) \<Rightarrow>
                map_sum id ((@) text) (expand_template m (drop (length ds - length rest) ds)))
         else if d = CHR ''0'' then
           (let oct = takeWhile is_octal (take 2 ds)
            in map_sum id ((@) (utf8 (foldl (\<lambda>a x. 8 * a + digit_val x) 0 oct mod 256)))
                 (expand_template m (drop (length oct) ds)))
         else if is_digit d then
           (if is_octal d \<and> length (takeWhile is_octal (take 2 ds)) = 2
            then (let v = foldl (\<lambda>a x. 8 * a + digit_val x) 0 (d # take 2 ds)
                  in if v > 255 then Inl ReError
                     else map_sum id ((@) (utf8 v)) (expand_template m (drop 2 ds)))
            else Inl ReError)
         else case simple_escape d of
                Some x \<Rightarrow> map_sum id ((#) x) (expand_template m ds)
              | None \<Rightarrow>
                  (if is_upper d \<or> is_lower d then Inl ReError
                   else map_sum id ((@) [c, d]) (expand_template m ds))))"
  by pat_completeness auto
termination
  by (relation "measure (\<lambda>(m, s). length s)") auto

text \<open>\<open>re.sub(pat, repl, s)\<close> for a literal pattern.\<close>

definition re_sub :: "string \<Rightarrow> string \<Rightarrow> string \<Rightarrow> error + string" where
  "re_sub pat repl s = map_sum id (\<lambda>r. replace_all pat r s) (expand_template pat repl)"

section \<open>Task and project commands (\<open>gtd_commands.py\<close>)\<close>

text \<open>
  The outcome of \<open>subprocess.run\<close>: the exit code of the process, or the process could
  not be started. With \<open>check=True\<close> an exit code other than zero raises
  \<open>CalledProcessError\<close>. The processes are taken not to touch the files of the
  workspace.
\<close>

datatype proc = Exit int | NotStarted

definition run_checked :: "proc \<Rightarrow> error option" where
  "run_checked r =
     (case r of
        Exit code \<Rightarrow> (if code = 0 then None else Some CalledProcessError)
      | NotStarted \<Rightarrow> Some OSError)"

text \<open>What a call finds around it: the clock that stamps the files it writes, the date
  \<open>datetime.now().strftime("%Y-%m-%d")\<close>, and the outcome of each process it runs.\<close>

record env =
  clock :: int
  today :: string
  git_add :: proc
  git_commit :: proc
  git_helper :: proc

text \<open>The lines the commands print, one constructor for each \<open>print\<close> of the source,
  with the values its f-string shows.\<close>

datatype line =
    NoActiveProject
  | ProjectNotFound string
  | GitCommittedTask string
  | CreatedTask string string
  | TaskFileLine path
  | GitHelperError
  | NoActiveProjectToStash
  | StashedProject string
  | SwitchUsage
  | InvalidProjectId string
  | SwitchedToProject string
  | ProjectPathLine path
  | PreviewHeader string
  | PreviewLine string

record state =
  files :: filesys
  out :: "line list"

definition say :: "line \<Rightarrow> state \<Rightarrow> state" where
  "say l st = st\<lparr>out := out st @ [l]\<rparr>"

text \<open>\<open>not x\<close> for a value that is \<open>None\<close> or a string.\<close>

definition falsy :: "string option \<Rightarrow> bool" where
  "falsy x = (x = None \<or> x = Some [])"

text \<open>The fields that \<open>TASK_TEMPLATE.format\<close> fills in.\<close>

record task_fields =
  f_id :: string
  f_project :: string
  f_title :: string
  f_status :: string
  f_energy :: string
  f_due :: string
  f_context :: string
  f_tags :: string
  f_created :: string
  f_project_name :: string
  f_notes :: string

definition TASK_TEMPLATE :: "task_fields \<Rightarrow> string" where
  "TASK_TEMPLATE f =
     ''---\<newline>'' @
     ''id: '' @ f_id f @ ''\<newline>'' @
     ''project: '' @ f_project f @ ''\<newline>'' @
     ''title: '' @ f_title f @ ''\<newline>'' @
     ''status: '' @ f_status f @ ''\<newline>'' @
     ''energy: '' @ f_energy f @ ''\<newline>'' @
     ''due: '' @ f_due f @ ''\<newline>'' @
     ''context: '' @ f_context f @ ''\<newline>'' @
     ''tags: '' @ f_tags f @ ''\<newline>'' @
     ''created: '' @ f_created f @ ''\<newline>'' @
     ''---\<newline>'' @
     ''\<newline>'' @
     ''# '' @ f_title f @ ''\<newline>'' @
     ''\<newline>'' @
     [CHR 0xE2, CHR 0x86, CHR 0x91] @ '' Part of [[../README|P'' @ f_project f @ '' ''
       @ f_project_name f @ '']]\<newline>'' @
     ''\<newline>'' @
     ''## Context\<newline>'' @
     f_context f @ ''\<newline>'' @
     ''\<newline>'' @
     ''## Next Action\<newline>'' @
     ''- [ ] [Specific next step] #next\<newline>'' @
     ''\<newline>'' @
     ''## Definition of Done\<newline>'' @
     ''- [ ] [Criteria 1]\<newline>'' @
     ''- [ ] [Criteria 2]\<newline>'' @
     ''\<newline>'' @
     ''## Notes\<newline>'' @
     f_notes f @ ''\<newline>''"

text \<open>The keyword arguments of \<open>create_task\<close> that the template uses; \<open>None\<close> for one
  that the caller leaves out. \<open>kw_tags\<close> is the text \<open>str\<close> gives for the value of
  \<open>tags\<close>.\<close>

record kwargs =
  kw_energy :: "string option"
  kw_due :: "string option"
  kw_context :: "string option"
  kw_tags :: "string option"
  kw_notes :: "string option"

definition kw_get :: "string option \<Rightarrow> string \<Rightarrow> string" where
  "kw_get v dflt = (case v of None \<Rightarrow> dflt | Some x \<Rightarrow> x)"

definition get_active_project :: "filesys \<Rightarrow> error + string option" where
  "get_active_project fs =
     (if path_exists fs ACTIVE_FILE
      then map_sum id (\<lambda>text. Some (strip text)) (read_text fs ACTIVE_FILE)
      else Inr None)"

definition set_active_project :: "filesys \<Rightarrow> string \<Rightarrow> int \<Rightarrow> error + filesys" where
  "set_active_project fs project_id t = write_text fs ACTIVE_FILE project_id t"

text \<open>\<open>call_git_helper\<close>: the helper script is run for each of the commands the
  callers pass; a failure of the script is caught and printed.\<close>

definition call_git_helper :: "proc \<Rightarrow> state \<Rightarrow> (error + bool) \<times> state" where
  "call_git_helper r st =
     (case r of
        Exit code \<Rightarrow> (if code = 0 then (Inr True, st) else (Inr False, say GitHelperError st))
      | NotStarted \<Rightarrow> (Inl OSError, st))"

definition update_memory :: "env \<Rightarrow> string \<Rightarrow> filesys \<Rightarrow> (error + unit) \<times> filesys" where
  "update_memory e message fs =
     (let memory_file = path_join MEMORY_DIR (today e @ ''.md'');
          header = ''# Memory: '' @ today e @ ''\<newline>\<newline>## Activities\<newline>''
      in case (if \<not> path_exists fs memory_file
               then write_text fs memory_file header (clock e) else Inr fs) of
           Inl err \<Rightarrow> (Inl err, fs)
         | Inr fs1 \<Rightarrow>
           (case write_text fs1 memory_file (''- '' @ message @ ''\<newline>'') (clock e) of
              Inl err \<Rightarrow> (Inl err, fs1)
            | Inr fs2 \<Rightarrow> (Inr (), fs2)))"

text \<open>The slug and the path of the record file of \<open>create_task\<close>.\<close>

definition task_slug :: "string \<Rightarrow> string" where
  "task_slug title = take 50 (map (\<lambda>c. if c = CHR '' '' then CHR ''-'' else c) (lower title))"

definition task_path :: "path \<Rightarrow> string \<Rightarrow> string \<Rightarrow> path" where
  "task_path project_folder task_id title =
     path_join (project_folder @ [''tasks'']) (task_id @ ''-'' @ task_slug title @ ''.md'')"

text \<open>The line of the project's README that links a task.\<close>

definition new_task_line :: "string \<Rightarrow> string \<Rightarrow> string" where
  "new_task_line task_id title =
     ''- [ ] [[tasks/'' @ task_id @ ''|'' @ task_id @ '']]: '' @ title @ '' #next\<newline>''"

text \<open>The block of \<open>create_task\<close> that updates the README of the project.\<close>

definition link_task :: "filesys \<Rightarrow> path \<Rightarrow> string \<Rightarrow> string \<Rightarrow> int \<Rightarrow> error + filesys" where
  "link_task fs readme task_id title t =
     (if path_exists fs readme
      then (case read_text fs readme of
              Inl err \<Rightarrow> Inl err
            | Inr readme_content \<Rightarrow>
              (if contains ''## Tasks\<newline>'' readme_content
               then (case re_sub ''## Tasks\<newline>''
                            (''## Tasks\<newline>'' @ new_task_line task_id title) readme_content of
                       Inl err \<Rightarrow> Inl err
                     | Inr new_content \<Rightarrow> write_text fs readme new_content t)
               else Inr fs))
      else Inr fs)"

text \<open>
  \<open>create_task\<close> is written in four parts, last part first: what follows the two
  \<open>git\<close> calls (the README, the two printed lines, the helper script); the two \<open>git\<close>
  calls; the record file; and the head of the function, which finds the project.
\<close>

definition finish_task ::
  "env \<Rightarrow> string \<Rightarrow> string \<Rightarrow> path \<Rightarrow> string \<Rightarrow> path \<Rightarrow> state
     \<Rightarrow> (error + string option) \<times> state" where
  "finish_task e title project_id project_folder task_id task_file st3 =
     (case link_task (files st3) (project_folder @ [''README.md'']) task_id title (clock e) of
        Inl err \<Rightarrow> (Inl err, st3)
      | Inr fs4 \<Rightarrow>
        (let st5 = say (TaskFileLine task_file)
                     (say (CreatedTask task_id project_id) (st3\<lparr>files := fs4\<rparr>))
         in case call_git_helper (git_helper e) st5 of
              (Inl err, st6) \<Rightarrow> (Inl err, st6)
            | (Inr _, st6) \<Rightarrow> (Inr (Some task_id), st6)))"

definition commit_task ::
  "env \<Rightarrow> string \<Rightarrow> string \<Rightarrow> path \<Rightarrow> string \<Rightarrow> path \<Rightarrow> state
     \<Rightarrow> (error + string option) \<times> state" where
  "commit_task e title project_id project_folder task_id task_file st2 =
     (case run_checked (git_add e) of
        Some err \<Rightarrow> (Inl err, st2)
      | None \<Rightarrow>
        (case run_checked (git_commit e) of
           Some err \<Rightarrow> (Inl err, st2)
         | None \<Rightarrow>
             finish_task e title project_id project_folder task_id task_file
               (say (GitCommittedTask task_id) st2)))"

text \<open>The text of the record file: the template filled in, with the defaults of the
  keyword arguments that the caller leaves out.\<close>

definition task_content :: "env \<Rightarrow> string \<Rightarrow> string \<Rightarrow> string \<Rightarrow> kwargs \<Rightarrow> string \<Rightarrow> string
     \<Rightarrow> string" where
  "task_content e title project_id status kw project_name task_id =
     TASK_TEMPLATE
       \<lparr>f_id = task_id,
        f_project = project_id,
        f_title = title,
        f_status = status,
        f_energy = kw_get (kw_energy kw) ''medium'',
        f_due = kw_get (kw_due kw) [],
        f_context = kw_get (kw_context kw) ''computer'',
        f_tags = kw_get (kw_tags kw) ''['next']'',
        f_created = today e,
        f_project_name = project_name,
        f_notes = kw_get (kw_notes kw) []\<rparr>"

definition write_task ::
  "env \<Rightarrow> string \<Rightarrow> string \<Rightarrow> string \<Rightarrow> kwargs \<Rightarrow> path \<Rightarrow> string \<Rightarrow> state
     \<Rightarrow> (error + string option) \<times> state" where
  "write_task e title project_id status kw project_folder project_name st =
     (let task_id = get_next_id ''K'' (files st);
          task_file = task_path project_folder task_id title
      in case mkdir_exist_ok (files st) (butlast task_file) (clock e) of
           Inl err \<Rightarrow> (Inl err, st)
         | Inr fs1 \<Rightarrow>
           (let content = task_content e title project_id status kw project_name task_id
            in case write_text fs1 task_file content (clock e) of
                 Inl err \<Rightarrow> (Inl err, st\<lparr>files := fs1\<rparr>)
               | Inr fs2 \<Rightarrow>
                   commit_task e title project_id project_folder task_id task_file
                     (st\<lparr>files := fs2\<rparr>)))"

text \<open>\<open>project_folder.name.split(f"{project_id}-")[1]\<close>.\<close>

definition project_name_of :: "string \<Rightarrow> string \<Rightarrow> error + string" where
  "project_name_of project_id folder_name =
     (case str_split (project_id @ ''-'') [] folder_name of
        _ # project_name # _ \<Rightarrow> Inr project_name
      | _ \<Rightarrow> Inl IndexError)"

text \<open>The arguments \<open>project_id\<close> and \<open>status\<close> are \<open>None\<close> when the caller leaves
  them out; the default of \<open>status\<close> is \<open>"next"\<close>.\<close>

definition create_task ::
  "env \<Rightarrow> string \<Rightarrow> string option \<Rightarrow> string option \<Rightarrow> kwargs \<Rightarrow> state
     \<Rightarrow> (error + string option) \<times> state" where
  "create_task e title project_id_arg status_arg kw st =
     (let status = (case status_arg of None \<Rightarrow> ''next'' | Some x \<Rightarrow> x) in
      case (if falsy project_id_arg then get_active_project (files st) else Inr project_id_arg) of
        Inl err \<Rightarrow> (Inl err, st)
      | Inr project_id_opt \<Rightarrow>
        (if falsy project_id_opt then (Inr None, say NoActiveProject st)
         else let project_id = the project_id_opt in
           case glob (files st) PROJECTS_DIR (project_id @ ''-*'') of
             [] \<Rightarrow> (Inr None, say (ProjectNotFound project_id) st)
           | project_folder # _ \<Rightarrow>
             (case project_name_of project_id (last project_folder) of
                Inl err \<Rightarrow> (Inl err, st)
              | Inr project_name \<Rightarrow>
                  write_task e title project_id status kw project_folder project_name st)))"

text \<open>The block of \<open>cmd_stash\<close> and \<open>cmd_switch\<close> that rewrites the README of the
  project; the replacement has no backslash, so \<open>re.sub\<close> takes it literally.\<close>

definition rewrite_readme :: "filesys \<Rightarrow> path \<Rightarrow> string \<Rightarrow> string \<Rightarrow> int \<Rightarrow> error + filesys" where
  "rewrite_readme fs readme old new t =
     (if path_exists fs readme
      then (case read_text fs readme of
              Inl err \<Rightarrow> Inl err
            | Inr content \<Rightarrow> write_text fs readme (replace_all old new content) t)
      else Inr fs)"

text \<open>The text of a stash entry.\<close>

definition stash_entry :: "string \<Rightarrow> string \<Rightarrow> string" where
  "stash_entry folder_name project_id =
     [CHR 0xE2, CHR 0x86, CHR 0x91] @ '' Project: [['' @ folder_name @ ''/README|'' @ project_id
       @ '']]\<newline>\<newline>''"

definition stash_path :: "string \<Rightarrow> path" where
  "stash_path project_id = path_join (PROJECTS_DIR @ [''P000-STASH'']) (project_id @ ''.md'')"

definition cmd_stash :: "env \<Rightarrow> state \<Rightarrow> (error + bool) \<times> state" where
  "cmd_stash e st =
     (case get_active_project (files st) of
        Inl err \<Rightarrow> (Inl err, st)
      | Inr None \<Rightarrow> (Inr False, say NoActiveProjectToStash st)
      | Inr (Some project_id) \<Rightarrow>
        if project_id = [] then (Inr False, say NoActiveProjectToStash st)
        else
        (case glob (files st) PROJECTS_DIR (project_id @ ''-*'') of
           [] \<Rightarrow> (Inr False, say (ProjectNotFound project_id) st)
         | project_folder # _ \<Rightarrow>
           (case rewrite_readme (files st) (project_folder @ [''README.md''])
                   ''stashed: false'' ''stashed: true'' (clock e) of
              Inl err \<Rightarrow> (Inl err, st)
            | Inr fs1 \<Rightarrow>
              (case write_text fs1 (stash_path project_id)
                      (stash_entry (last project_folder) project_id) (clock e) of
                 Inl err \<Rightarrow> (Inl err, st\<lparr>files := fs1\<rparr>)
               | Inr fs2 \<Rightarrow>
                 (case write_text fs2 ACTIVE_FILE [] (clock e) of
                    Inl err \<Rightarrow> (Inl err, st\<lparr>files := fs2\<rparr>)
                  | Inr fs3 \<Rightarrow>
                    (let st3 = say (StashedProject project_id) (st\<lparr>files := fs3\<rparr>)
                     in case update_memory e
                               (''Stashed project [['' @ last project_folder @ ''/README|''
                                  @ project_id @ '']]'') fs3 of
                          (Inl err, fs4) \<Rightarrow> (Inl err, st3\<lparr>files := fs4\<rparr>)
                        | (Inr _, fs4) \<Rightarrow>
                          (case call_git_helper (git_helper e) (st3\<lparr>files := fs4\<rparr>) of
                             (Inl err, st5) \<Rightarrow> (Inl err, st5)
                           | (Inr _, st5) \<Rightarrow> (Inr True, st5))))))))"

text \<open>\<open>re.match(r'^P\d+$', project_id)\<close>; the \<open>$\<close> also matches before a line feed
  that ends the string.\<close>

definition valid_switch_id :: "string \<Rightarrow> bool" where
  "valid_switch_id project_id =
     (case project_id of
        [] \<Rightarrow> False
      | c # cs \<Rightarrow>
          c = CHR ''P'' \<and> takeWhile is_digit cs \<noteq> []
          \<and> (dropWhile is_digit cs = [] \<or> dropWhile is_digit cs = [CHR 0x0A]))"

text \<open>The preview of the README that \<open>cmd_switch\<close> prints at its end.\<close>

definition readme_preview :: "filesys \<Rightarrow> path \<Rightarrow> string \<Rightarrow> state \<Rightarrow> (error + unit) \<times> state" where
  "readme_preview fs readme folder_name st =
     (if path_exists fs readme
      then (case read_text fs readme of
              Inl err \<Rightarrow> (Inl err, say (PreviewHeader folder_name) st)
            | Inr content \<Rightarrow>
                (Inr (),
                 st\<lparr>out := out st @ PreviewHeader folder_name
                         # map PreviewLine (take 15 (split_char (CHR 0x0A) [] content))\<rparr>))
      else (Inr (), st))"

definition cmd_switch :: "env \<Rightarrow> string list \<Rightarrow> state \<Rightarrow> (error + bool) \<times> state" where
  "cmd_switch e args st =
     (case args of
        [] \<Rightarrow> (Inr False, say SwitchUsage st)
      | project_id # _ \<Rightarrow>
        if \<not> valid_switch_id project_id then (Inr False, say (InvalidProjectId project_id) st)
        else
        (case glob (files st) PROJECTS_DIR (project_id @ ''-*'') of
           [] \<Rightarrow> (Inr False, say (ProjectNotFound project_id) st)
         | project_folder # _ \<Rightarrow>
           (case rewrite_readme (files st) (project_folder @ [''README.md''])
                   ''stashed: true'' ''stashed: false'' (clock e) of
              Inl err \<Rightarrow> (Inl err, st)
            | Inr fs1 \<Rightarrow>
              (case set_active_project fs1 project_id (clock e) of
                 Inl err \<Rightarrow> (Inl err, st\<lparr>files := fs1\<rparr>)
               | Inr fs2 \<Rightarrow>
                 (let st2 = say (ProjectPathLine project_folder)
                              (say (SwitchedToProject project_id) (st\<lparr>files := fs2\<rparr>))
                  in case call_git_helper (git_helper e) st2 of
                       (Inl err, st3) \<Rightarrow> (Inl err, st3)
                     | (Inr _, st3) \<Rightarrow>
                       (case readme_preview fs2 (project_folder @ [''README.md''])
                               (last project_folder) st3 of
                          (Inl err, st4) \<Rightarrow> (Inl err, st4)
                        | (Inr _, st4) \<Rightarrow> (Inr True, st4)))))))"

section \<open>Health alerts (\<open>gtd_health_alerts.py\<close>)\<close>

text \<open>
  Times are \<open>datetime\<close> values counted in microseconds; \<open>now\<close> is the one reading of
  the clock that a run of the script works with. An alert is kept as the values its
  f-string shows: the path, the identifier, the title and the days of an aging task; the
  link, the identifier and the days of a stashed project; the count of the inbox.
\<close>

datatype alert =
    WaitingStale path string string int
  | NextStale path string string int
  | StashStale string string int
  | InboxOverflow nat

definition day :: int where
  "day = 86400000000"

text \<open>\<open>(now - mtime).days\<close>.\<close>

definition age_days :: "int \<Rightarrow> int \<Rightarrow> int" where
  "age_days now mtime = (now - mtime) div day"

text \<open>\<open>re.search(r'id: (K\d+)', content)\<close> and \<open>re.search(r'title: ([^\n]+)', content)\<close>,
  each with its group.\<close>

definition id_match :: "string \<Rightarrow> string option" where
  "id_match content = map_option ((@) ''K'') (search_run ''id: K'' is_digit content)"

definition title_match :: "string \<Rightarrow> string option" where
  "title_match content = search_run ''title: '' (\<lambda>c. c \<noteq> CHR 0x0A) content"

text \<open>The body of the loop of \<open>check_aging_tasks\<close> for one task file, once its text and
  its time are read.\<close>

definition task_alerts :: "int \<Rightarrow> path \<Rightarrow> string \<Rightarrow> int \<Rightarrow> alert list" where
  "task_alerts now task_file content mtime =
     (let three_days_ago = now - 3 * day;
          seven_days_ago = now - 7 * day
      in (if contains ''status: waiting'' content \<and> mtime < three_days_ago
          then (case (id_match content, title_match content) of
                  (Some task_id, Some title) \<Rightarrow>
                    [WaitingStale task_file task_id title (age_days now mtime)]
                | _ \<Rightarrow> [])
          else [])
         @
         (if contains ''status: next'' content \<and> mtime < seven_days_ago
          then (case (id_match content, title_match content) of
                  (Some task_id, Some title) \<Rightarrow>
                    [NextStale task_file task_id title (age_days now mtime)]
                | _ \<Rightarrow> [])
          else []))"

fun aging_loop :: "int \<Rightarrow> filesys \<Rightarrow> path list \<Rightarrow> error + alert list" where
  "aging_loop now fs [] = Inr []"
| "aging_loop now fs (task_file # rest) =
     (case read_text fs task_file of
        Inl err \<Rightarrow> Inl err
      | Inr content \<Rightarrow>
        (case st_mtime fs task_file of
           Inl err \<Rightarrow> Inl err
         | Inr mtime \<Rightarrow>
             map_sum id ((@) (task_alerts now task_file content mtime))
               (aging_loop now fs rest)))"

definition check_aging_tasks :: "int \<Rightarrow> filesys \<Rightarrow> error + alert list" where
  "check_aging_tasks now fs = aging_loop now fs (rglob fs PROJECTS_DIR ''K*.md'')"

text \<open>\<open>re.search(r'\[\[([^|\]]+)\|([^|\]]+)\]\]', content)\<close> with its two groups.\<close>

definition link_char :: "char \<Rightarrow> bool" where
  "link_char c = (c \<noteq> CHR ''|'' \<and> c \<noteq> CHR '']'')"

definition link_at :: "string \<Rightarrow> (string \<times> string) option" where
  "link_at s =
     (if starts_with ''[['' s
      then (let g1 = takeWhile link_char (drop 2 s);
                r1 = dropWhile link_char (drop 2 s);
                g2 = takeWhile link_char (drop 1 r1);
                r2 = dropWhile link_char (drop 1 r1)
            in if g1 \<noteq> [] \<and> starts_with ''|'' r1 \<and> g2 \<noteq> [] \<and> starts_with '']]'' r2
               then Some (g1, g2) else None)
      else None)"

fun project_match :: "string \<Rightarrow> (string \<times> string) option" where
  "project_match [] = None"
| "project_match (c # cs) =
     (case link_at (c # cs) of Some g \<Rightarrow> Some g | None \<Rightarrow> project_match cs)"

fun stash_loop :: "int \<Rightarrow> filesys \<Rightarrow> path list \<Rightarrow> error + alert list" where
  "stash_loop now fs [] = Inr []"
| "stash_loop now fs (stash_file # rest) =
     (case st_mtime fs stash_file of
        Inl err \<Rightarrow> Inl err
      | Inr mtime \<Rightarrow>
        (if mtime < now - 7 * day
         then (case read_text fs stash_file of
                 Inl err \<Rightarrow> Inl err
               | Inr content \<Rightarrow>
                   map_sum id
                     ((@) (case project_match content of
                             Some (project_link, project_id) \<Rightarrow>
                               [StashStale project_link project_id (age_days now mtime)]
                           | None \<Rightarrow> []))
                     (stash_loop now fs rest))
         else stash_loop now fs rest))"

definition check_stashed_projects :: "int \<Rightarrow> filesys \<Rightarrow> error + alert list" where
  "check_stashed_projects now fs =
     (let stash_dir = PROJECTS_DIR @ [''P000-STASH'']
      in if \<not> path_exists fs stash_dir then Inr []
         else stash_loop now fs (glob fs stash_dir ''P*.md''))"

fun inbox_loop :: "filesys \<Rightarrow> path list \<Rightarrow> error + nat" where
  "inbox_loop fs [] = Inr 0"
| "inbox_loop fs (task_file # rest) =
     (case read_text fs task_file of
        Inl err \<Rightarrow> Inl err
      | Inr content \<Rightarrow>
          map_sum id (\<lambda>n. if contains ''status: inbox'' content then n + 1 else n)
            (inbox_loop fs rest))"

definition check_inbox_overflow :: "filesys \<Rightarrow> error + alert list" where
  "check_inbox_overflow fs =
     map_sum id (\<lambda>inbox_count. if inbox_count > 10 then [InboxOverflow inbox_count] else [])
       (inbox_loop fs (rglob fs PROJECTS_DIR ''K*.md''))"

definition generate_alerts :: "int \<Rightarrow> filesys \<Rightarrow> error + alert list" where
  "generate_alerts now fs =
     (case check_aging_tasks now fs of
        Inl err \<Rightarrow> Inl err
      | Inr aging \<Rightarrow>
        (case check_stashed_projects now fs of
           Inl err \<Rightarrow> Inl err
         | Inr stashed \<Rightarrow>
           (case check_inbox_overflow fs of
              Inl err \<Rightarrow> Inl err
            | Inr inbox \<Rightarrow> Inr (aging @ stashed @ inbox))))"

text \<open>The kinds of alert, and the text and the time of a file, for the statements
  below.\<close>

definition is_aging_alert :: "alert \<Rightarrow> bool" where
  "is_aging_alert a =
     (case a of WaitingStale _ _ _ _ \<Rightarrow> True | NextStale _ _ _ _ \<Rightarrow> True | _ \<Rightarrow> False)"

definition is_stash_alert :: "alert \<Rightarrow> bool" where
  "is_stash_alert a = (case a of StashStale _ _ _ \<Rightarrow> True | _ \<Rightarrow> False)"

definition is_waiting_alert :: "alert \<Rightarrow> bool" where
  "is_waiting_alert a = (case a of WaitingStale _ _ _ _ \<Rightarrow> True | _ \<Rightarrow> False)"

definition is_next_alert :: "alert \<Rightarrow> bool" where
  "is_next_alert a = (case a of NextStale _ _ _ _ \<Rightarrow> True | _ \<Rightarrow> False)"

definition file_text :: "filesys \<Rightarrow> path \<Rightarrow> string" where
  "file_text fs p = (case map_of fs p of Some (File text _) \<Rightarrow> text | _ \<Rightarrow> [])"

definition file_time :: "filesys \<Rightarrow> path \<Rightarrow> int" where
  "file_time fs p = (case map_of fs p of Some (File _ t) \<Rightarrow> t | Some (Dir t) \<Rightarrow> t | None \<Rightarrow> 0)"

definition alert_path :: "alert \<Rightarrow> path option" where
  "alert_path a =
     (case a of WaitingStale p _ _ _ \<Rightarrow> Some p | NextStale p _ _ _ \<Rightarrow> Some p | _ \<Rightarrow> None)"

section \<open>Example workspaces\<close>

text \<open>A workspace with one project, two task records, both last written at time 0, and a
  stash entry.\<close>

definition example_tasks :: filesys where
  "example_tasks =
     [([''projects''], Dir 0),
      ([''projects'', ''P001-x''], Dir 0),
      ([''projects'', ''P001-x'', ''tasks''], Dir 0),
      ([''projects'', ''P001-x'', ''tasks'', ''K001-a.md''],
         File ''id: K001\<newline>title: A\<newline>status: next\<newline>'' 0),
      ([''projects'', ''P001-x'', ''tasks'', ''K002-b.md''],
         File ''id: K002\<newline>title: B\<newline>status: waiting\<newline>'' 0),
      ([''projects'', ''P000-STASH''], Dir 0),
      ([''projects'', ''P000-STASH'', ''P001.md''],
         File ''x [[P001-x/README|P001]]\<newline>'' 0)]"

text \<open>A workspace with one project that has a README and a directory of tasks, no task
  yet, the directory of the stash and the directory of the memory log; an environment in
  which every process succeeds; a call without keyword arguments.\<close>

definition example_readme :: string where
  "example_readme =
     ''---\<newline>id: P001\<newline>title: x\<newline>status: active\<newline>stashed: false\<newline>---\<newline>\<newline>## Tasks\<newline>- [ ] first\<newline>''"

definition example_workspace :: filesys where
  "example_workspace =
     [([''projects''], Dir 0),
      ([''projects'', ''P001-x''], Dir 0),
      ([''projects'', ''P001-x'', ''README.md''], File example_readme 0),
      ([''projects'', ''P001-x'', ''tasks''], Dir 0),
      ([''projects'', ''P000-STASH''], Dir 0),
      ([''memory''], Dir 0)]"

definition example_state :: state where
  "example_state = \<lparr>files = example_workspace, out = []\<rparr>"

definition example_env :: env where
  "example_env =
     \<lparr>clock = 5, today = ''2025-01-01'', git_add = Exit 0, git_commit = Exit 0,
      git_helper = Exit 0\<rparr>"

definition no_kwargs :: kwargs where
  "no_kwargs =
     \<lparr>kw_energy = None, kw_due = None, kw_context = None, kw_tags = None, kw_notes = None\<rparr>"

section \<open>Properties of the aside detector\<close>

lemma trigger_loop_eq:
  "trigger_loop ts s =
     (if list_ex (\<lambda>t. re_search True t s) ts then [(s, infer_aside_type s)] else [])"
  by (induction ts) auto

lemma detect_loop_eq:
  "detect_loop raws =
     map (\<lambda>s. (s, infer_aside_type s))
       (filter (\<lambda>s. s \<noteq> [] \<and> \<not> is_ignored s \<and> is_triggered s) (map strip raws))"
  by (induction raws) (auto simp: Let_def trigger_loop_eq is_triggered_def)

text \<open>
  C9. The asides of a text are exactly its stripped, non-empty sentences that match no
  ignore pattern and match some trigger phrase, in order, each with its inferred type:
  a sentence that matches an ignore pattern never yields an aside, whatever triggers it
  matches. The sentence of \<open>Also, but we already covered that.\<close> matches both an ignore
  pattern and a trigger phrase, and the text yields no aside.
\<close>

theorem detect_asides_ignore_precedence:
  "detect_asides text =
     map (\<lambda>s. (s, infer_aside_type s))
       (filter (\<lambda>s. s \<noteq> [] \<and> \<not> is_ignored s \<and> is_triggered s)
          (map strip (split_sentences text)))
   \<and> is_ignored ''Also, but we already covered that''
   \<and> is_triggered ''Also, but we already covered that''
   \<and> detect_asides ''Also, but we already covered that.'' = []"
proof (intro conjI)
  show "detect_asides text =
     map (\<lambda>s. (s, infer_aside_type s))
       (filter (\<lambda>s. s \<noteq> [] \<and> \<not> is_ignored s \<and> is_triggered s)
          (map strip (split_sentences text)))"
    by (simp add: detect_asides_def detect_loop_eq)
  show "is_ignored ''Also, but we already covered that''" by code_simp
  show "is_triggered ''Also, but we already covered that''" by code_simp
  show "detect_asides ''Also, but we already covered that.'' = []" by code_simp
qed

section \<open>Properties of identifier allocation\<close>

lemma collect_ids_other_prefix:
  "prefix \<noteq> ''K'' \<Longrightarrow> collect_ids prefix ps = collect_ids ''P'' ps"
  by (induction ps) (simp_all split: option.splits)

text \<open>
  C7, as the code has it. \<open>get_next_id\<close> knows one prefix, \<open>K\<close>; every other prefix is
  handled as the project prefix is: the scan looks for \<open>P\<close> identifiers, and the result is
  the given prefix followed by the digits that \<open>get_next_id\<close> returns for \<open>P\<close>. No prefix
  makes it fail.
\<close>

theorem get_next_id_other_prefix:
  assumes "prefix \<noteq> ''K''"
  shows "get_next_id prefix fs = prefix @ drop 1 (get_next_id ''P'' fs)"
proof -
  have "collect_ids prefix (rglob fs PROJECTS_DIR ''P[0-9]*'')
          = collect_ids ''P'' (rglob fs PROJECTS_DIR ''P[0-9]*'')"
    using assms by (rule collect_ids_other_prefix)
  with assms show ?thesis
    by (simp add: get_next_id_def Let_def)
qed

theorem get_next_id_other_prefix_witness:
  "''X'' \<noteq> ''K'' \<and> get_next_id ''X'' [] = ''X'' @ drop 1 (get_next_id ''P'' [])"
  using get_next_id_other_prefix [of "''X''" "[]"] by simp

text \<open>The prefix \<open>X\<close> is none of the two kinds, and the call returns an identifier.\<close>

theorem get_next_id_unknown_prefix_counterexample:
  "get_next_id ''X'' [] = ''X001''"
  by code_simp

section \<open>Properties of the health alerts\<close>

lemma map_sum_id_Inr:
  "(map_sum id f x = Inr y) = (\<exists>z. x = Inr z \<and> y = f z)"
  by (cases x) auto

lemma map_sum_id_Inl:
  "(map_sum id f x = Inl e) = (x = Inl e)"
  by (cases x) auto

lemma read_text_Inr: "read_text fs p = Inr c \<Longrightarrow> file_text fs p = c"
  by (simp add: read_text_def file_text_def split: option.splits if_splits node.splits)

lemma st_mtime_Inr: "st_mtime fs p = Inr t \<Longrightarrow> file_time fs p = t"
  by (simp add: st_mtime_def file_time_def split: option.splits node.splits)

lemma aging_loop_Inr:
  "aging_loop now fs ps = Inr alerts \<Longrightarrow>
     alerts = concat (map (\<lambda>p. task_alerts now p (file_text fs p) (file_time fs p)) ps)"
proof (induction ps arbitrary: alerts)
  case Nil
  then show ?case by simp
next
  case (Cons p ps)
  from Cons.prems obtain c t more where
    r: "read_text fs p = Inr c" and m: "st_mtime fs p = Inr t" and
    l: "aging_loop now fs ps = Inr more" and a: "alerts = task_alerts now p c t @ more"
    by (auto simp: map_sum_id_Inr split: sum.splits)
  from Cons.IH [OF l] a read_text_Inr [OF r] st_mtime_Inr [OF m] show ?case by simp
qed

lemma stash_loop_kind:
  "stash_loop now fs ps = Inr alerts \<Longrightarrow> \<forall>a \<in> set alerts. is_stash_alert a"
proof (induction ps arbitrary: alerts)
  case Nil
  then show ?case by simp
next
  case (Cons p ps)
  from Cons.prems obtain mtime where m: "st_mtime fs p = Inr mtime"
    by (cases "st_mtime fs p") auto
  show ?case
  proof (cases "mtime < now - 7 * day")
    case False
    with Cons.prems m have "stash_loop now fs ps = Inr alerts" by simp
    then show ?thesis by (rule Cons.IH)
  next
    case True
    with Cons.prems m obtain content where r: "read_text fs p = Inr content"
      by (cases "read_text fs p") auto
    with Cons.prems m True obtain more where
      l: "stash_loop now fs ps = Inr more" and
      a: "alerts = (case project_match content of
                      Some (project_link, project_id) \<Rightarrow>
                        [StashStale project_link project_id (age_days now mtime)]
                    | None \<Rightarrow> []) @ more"
      by (auto simp: map_sum_id_Inr)
    from Cons.IH [OF l] a show ?thesis
      by (auto simp: is_stash_alert_def split: option.splits)
  qed
qed

lemma generate_alerts_Inr:
  "generate_alerts now fs = Inr alerts \<Longrightarrow>
     \<exists>a s i. check_aging_tasks now fs = Inr a \<and> check_stashed_projects now fs = Inr s
        \<and> check_inbox_overflow fs = Inr i \<and> alerts = a @ s @ i"
  unfolding generate_alerts_def
  by (simp split: sum.splits)

text \<open>
  C8, as the code has it. The alerts of a run that succeeds are, in this order: the
  alerts of the aging tasks, file by file in the order of the scan, each file giving its
  waiting alert and then its next alert (so the alerts of the two aging rules are
  interleaved); then the alerts of the stashed projects; then the inbox alert, if there
  are more than ten inbox tasks.
\<close>

theorem generate_alerts_order:
  assumes "generate_alerts now fs = Inr alerts"
  shows "\<exists>stashed inbox.
           alerts =
             concat (map (\<lambda>p. task_alerts now p (file_text fs p) (file_time fs p))
                       (rglob fs PROJECTS_DIR ''K*.md''))
             @ stashed @ inbox
           \<and> check_stashed_projects now fs = Inr stashed
           \<and> check_inbox_overflow fs = Inr inbox
           \<and> (\<forall>a \<in> set stashed. is_stash_alert a)
           \<and> (inbox = [] \<or> (\<exists>n. inbox = [InboxOverflow n] \<and> 10 < n))"
proof -
  from generate_alerts_Inr [OF assms] obtain aging stashed inbox where
    a: "check_aging_tasks now fs = Inr aging" and
    s: "check_stashed_projects now fs = Inr stashed" and
    i: "check_inbox_overflow fs = Inr inbox" and
    al: "alerts = aging @ stashed @ inbox"
    by blast
  from a have "aging_loop now fs (rglob fs PROJECTS_DIR ''K*.md'') = Inr aging"
    by (simp add: check_aging_tasks_def)
  then have ag: "aging = concat (map (\<lambda>p. task_alerts now p (file_text fs p) (file_time fs p))
                       (rglob fs PROJECTS_DIR ''K*.md''))"
    by (rule aging_loop_Inr)
  have st: "\<forall>a \<in> set stashed. is_stash_alert a"
  proof (cases "path_exists fs (PROJECTS_DIR @ [''P000-STASH''])")
    case True
    with s have "stash_loop now fs (glob fs (PROJECTS_DIR @ [''P000-STASH'']) ''P*.md'')
                   = Inr stashed"
      by (simp add: check_stashed_projects_def Let_def)
    then show ?thesis by (rule stash_loop_kind)
  next
    case False
    with s show ?thesis
      by (simp add: check_stashed_projects_def Let_def)
  qed
  from i have ib: "inbox = [] \<or> (\<exists>n. inbox = [InboxOverflow n] \<and> 10 < n)"
    unfolding check_inbox_overflow_def
    by (cases "inbox_loop fs (rglob fs PROJECTS_DIR ''K*.md'')") (auto split: if_splits)
  show ?thesis
  proof (intro exI conjI)
    show "alerts = concat (map (\<lambda>p. task_alerts now p (file_text fs p) (file_time fs p))
                       (rglob fs PROJECTS_DIR ''K*.md'')) @ stashed @ inbox"
      using al ag by simp
    show "check_stashed_projects now fs = Inr stashed" by (rule s)
    show "check_inbox_overflow fs = Inr inbox" by (rule i)
    show "\<forall>a \<in> set stashed. is_stash_alert a" by (rule st)
    show "inbox = [] \<or> (\<exists>n. inbox = [InboxOverflow n] \<and> 10 < n)" by (rule ib)
  qed
qed

text \<open>In the example the alert of the next rule for the first task comes before the
  alert of the waiting rule for the second task.\<close>

theorem generate_alerts_interleaved_counterexample:
  "generate_alerts (8 * day) example_tasks =
     Inr [NextStale [''projects'', ''P001-x'', ''tasks'', ''K001-a.md''] ''K001'' ''A'' 8,
          WaitingStale [''projects'', ''P001-x'', ''tasks'', ''K002-b.md''] ''K002'' ''B'' 8,
          StashStale ''P001-x/README'' ''P001'' 8]"
  by code_simp

theorem generate_alerts_order_witness:
  "generate_alerts (8 * day) example_tasks =
     Inr [NextStale [''projects'', ''P001-x'', ''tasks'', ''K001-a.md''] ''K001'' ''A'' 8,
          WaitingStale [''projects'', ''P001-x'', ''tasks'', ''K002-b.md''] ''K002'' ''B'' 8,
          StashStale ''P001-x/README'' ''P001'' 8]
   \<and> (\<exists>stashed inbox.
          [NextStale [''projects'', ''P001-x'', ''tasks'', ''K001-a.md''] ''K001'' ''A'' 8,
           WaitingStale [''projects'', ''P001-x'', ''tasks'', ''K002-b.md''] ''K002'' ''B'' 8,
           StashStale ''P001-x/README'' ''P001'' 8] =
             concat (map (\<lambda>p. task_alerts (8 * day) p (file_text example_tasks p)
                                 (file_time example_tasks p))
                       (rglob example_tasks PROJECTS_DIR ''K*.md''))
             @ stashed @ inbox
           \<and> check_stashed_projects (8 * day) example_tasks = Inr stashed
           \<and> check_inbox_overflow example_tasks = Inr inbox
           \<and> (\<forall>a \<in> set stashed. is_stash_alert a)
           \<and> (inbox = [] \<or> (\<exists>n. inbox = [InboxOverflow n] \<and> 10 < n)))"
proof -
  have h: "generate_alerts (8 * day) example_tasks =
     Inr [NextStale [''projects'', ''P001-x'', ''tasks'', ''K001-a.md''] ''K001'' ''A'' 8,
          WaitingStale [''projects'', ''P001-x'', ''tasks'', ''K002-b.md''] ''K002'' ''B'' 8,
          StashStale ''P001-x/README'' ''P001'' 8]"
    by code_simp
  from generate_alerts_order [OF h] h show ?thesis by (rule_tac conjI)
qed

lemma concat_map_single:
  "distinct ps \<Longrightarrow> t \<in> set ps \<Longrightarrow> concat (map (\<lambda>p. if p = t then f p else []) ps) = f t"
proof (induction ps)
  case Nil
  then show ?case by simp
next
  case (Cons p ps)
  show ?case
  proof (cases "p = t")
    case True
    with Cons.prems have "t \<notin> set ps" by simp
    then have "concat (map (\<lambda>p. if p = t then f p else []) ps) = []"
      by (induction ps) auto
    with True show ?thesis by simp
  next
    case False
    with Cons show ?thesis by simp
  qed
qed

lemma task_alerts_path:
  "a \<in> set (task_alerts now p c m) \<Longrightarrow> alert_path a = Some p"
  by (cases "contains ''status: waiting'' c \<and> m < now - 3 * day";
      cases "contains ''status: next'' c \<and> m < now - 7 * day";
      cases "id_match c"; cases "title_match c")
     (auto simp: task_alerts_def alert_path_def)

lemma filter_task_alerts:
  "filter (\<lambda>a. alert_path a = Some t) (task_alerts now p c m)
     = (if p = t then task_alerts now p c m else [])"
proof (cases "p = t")
  case True
  then have "\<forall>a \<in> set (task_alerts now p c m). alert_path a = Some t"
    by (simp add: task_alerts_path)
  then have "filter (\<lambda>a. alert_path a = Some t) (task_alerts now p c m) = task_alerts now p c m"
    by (simp only: filter_id_conv)
  with True show ?thesis by simp
next
  case False
  then have "\<forall>a \<in> set (task_alerts now p c m). alert_path a \<noteq> Some t"
    by (auto dest: task_alerts_path)
  then have "filter (\<lambda>a. alert_path a = Some t) (task_alerts now p c m) = []"
    by (simp only: filter_empty_conv)
  with False show ?thesis by simp
qed

lemma filter_concat_map:
  "filter P (concat (map f ps)) = concat (map (\<lambda>p. filter P (f p)) ps)"
  by (induction ps) auto

lemma distinct_rglob: "distinct (map fst fs) \<Longrightarrow> distinct (rglob fs d pat)"
  by (simp add: rglob_def)

lemma age_days_ge4: "4 \<le> age_days now mtime \<Longrightarrow> 3 * day < now - mtime"
  unfolding age_days_def day_def by linarith

lemma age_days_lt3: "age_days now mtime < 3 \<Longrightarrow> \<not> 3 * day < now - mtime"
  unfolding age_days_def day_def by linarith

text \<open>
  C4, as the code has it. The age test compares the time since the last modification
  itself with three days, strictly, and not the whole number of days shown in the alert.
  In a run of \<open>check_aging_tasks\<close> that succeeds, the alerts about a task record that is
  waiting (and not next) and shows an identifier and a title are: one waiting alert if more
  than three days have passed since its last modification, none otherwise. So a task whose
  age counts four days or more has exactly one waiting alert, a task modified exactly
  three days ago has none, and a task whose age counts fewer than three days has none.
\<close>

theorem waiting_alert_boundary:
  assumes run: "check_aging_tasks now fs = Inr alerts"
      and wf: "distinct (map fst fs)"
      and scanned: "task_file \<in> set (rglob fs PROJECTS_DIR ''K*.md'')"
      and reads: "read_text fs task_file = Inr content"
      and mtime: "st_mtime fs task_file = Inr mtime"
      and waiting: "contains ''status: waiting'' content"
      and not_next: "\<not> contains ''status: next'' content"
      and ident: "id_match content = Some task_id"
      and title: "title_match content = Some title"
  shows "filter (\<lambda>a. alert_path a = Some task_file) alerts =
           (if 3 * day < now - mtime
            then [WaitingStale task_file task_id title (age_days now mtime)] else [])
         \<and> (4 \<le> age_days now mtime \<longrightarrow>
              filter (\<lambda>a. alert_path a = Some task_file) alerts =
                [WaitingStale task_file task_id title (age_days now mtime)])
         \<and> (now - mtime = 3 * day \<longrightarrow> filter (\<lambda>a. alert_path a = Some task_file) alerts = [])
         \<and> (age_days now mtime < 3 \<longrightarrow>
              filter (\<lambda>a. alert_path a = Some task_file) alerts = [])"
proof -
  let ?body = "\<lambda>p. task_alerts now p (file_text fs p) (file_time fs p)"
  from run have "aging_loop now fs (rglob fs PROJECTS_DIR ''K*.md'') = Inr alerts"
    by (simp add: check_aging_tasks_def)
  then have "alerts = concat (map ?body (rglob fs PROJECTS_DIR ''K*.md''))"
    by (rule aging_loop_Inr)
  then have "filter (\<lambda>a. alert_path a = Some task_file) alerts =
               concat (map (\<lambda>p. if p = task_file then ?body p else [])
                         (rglob fs PROJECTS_DIR ''K*.md''))"
    by (simp add: filter_concat_map filter_task_alerts)
  also have "\<dots> = ?body task_file"
    using distinct_rglob [OF wf] scanned by (rule concat_map_single)
  also have "\<dots> = task_alerts now task_file content mtime"
    using read_text_Inr [OF reads] st_mtime_Inr [OF mtime] by simp
  also have "\<dots> = (if 3 * day < now - mtime
            then [WaitingStale task_file task_id title (age_days now mtime)] else [])"
    using waiting not_next ident title
    by (cases "mtime < now - 3 * day") (simp_all add: task_alerts_def)
  finally have main: "filter (\<lambda>a. alert_path a = Some task_file) alerts =
           (if 3 * day < now - mtime
            then [WaitingStale task_file task_id title (age_days now mtime)] else [])" .
  show ?thesis
  proof (intro conjI impI)
    show "filter (\<lambda>a. alert_path a = Some task_file) alerts =
           (if 3 * day < now - mtime
            then [WaitingStale task_file task_id title (age_days now mtime)] else [])"
      by (rule main)
    show "filter (\<lambda>a. alert_path a = Some task_file) alerts =
            [WaitingStale task_file task_id title (age_days now mtime)]"
      if "4 \<le> age_days now mtime"
      using main age_days_ge4 [OF that] by simp
    show "filter (\<lambda>a. alert_path a = Some task_file) alerts = []"
      if "now - mtime = 3 * day"
      using main that by simp
    show "filter (\<lambda>a. alert_path a = Some task_file) alerts = []"
      if "age_days now mtime < 3"
      using main age_days_lt3 [OF that] by simp
  qed
qed

theorem waiting_alert_boundary_witness:
  "check_aging_tasks (4 * day) example_tasks =
     Inr [WaitingStale [''projects'', ''P001-x'', ''tasks'', ''K002-b.md''] ''K002'' ''B'' 4]
   \<and> filter (\<lambda>a. alert_path a = Some [''projects'', ''P001-x'', ''tasks'', ''K002-b.md''])
         [WaitingStale [''projects'', ''P001-x'', ''tasks'', ''K002-b.md''] ''K002'' ''B'' 4]
       = [WaitingStale [''projects'', ''P001-x'', ''tasks'', ''K002-b.md''] ''K002'' ''B''
            (age_days (4 * day) 0)]"
proof -
  let ?p = "[''projects'', ''P001-x'', ''tasks'', ''K002-b.md'']"
  let ?c = "''id: K002\<newline>title: B\<newline>status: waiting\<newline>''"
  have h1: "check_aging_tasks (4 * day) example_tasks = Inr [WaitingStale ?p ''K002'' ''B'' 4]"
    by code_simp
  have h2: "distinct (map fst example_tasks)" by code_simp
  have h3: "?p \<in> set (rglob example_tasks PROJECTS_DIR ''K*.md'')" by code_simp
  have h4: "read_text example_tasks ?p = Inr ?c" by code_simp
  have h5: "st_mtime example_tasks ?p = Inr 0" by code_simp
  have h6: "contains ''status: waiting'' ?c" by code_simp
  have h7: "\<not> contains ''status: next'' ?c" by code_simp
  have h8: "id_match ?c = Some ''K002''" by code_simp
  have h9: "title_match ?c = Some ''B''" by code_simp
  have h10: "4 \<le> age_days (4 * day) 0" by code_simp
  from waiting_alert_boundary [OF h1 h2 h3 h4 h5 h6 h7 h8 h9] h10 h1 show ?thesis
    by blast
qed

text \<open>A waiting task modified three days and one microsecond ago: its age counts three
  days, and it has an alert.\<close>

theorem waiting_alert_at_three_days_counterexample:
  "age_days (3 * day + 1) 0 = 3
   \<and> check_aging_tasks (3 * day + 1) example_tasks =
       Inr [WaitingStale [''projects'', ''P001-x'', ''tasks'', ''K002-b.md''] ''K002'' ''B'' 3]"
  by code_simp


section \<open>Properties of the file system\<close>

lemma map_of_fs_put: "map_of (fs_put fs p n) q = (if q = p then Some n else map_of fs q)"
  by (induction fs) auto

lemma map_fst_fs_put:
  "map fst (fs_put fs p n) = (if map_of fs p = None then map fst fs @ [p] else map fst fs)"
  by (induction fs) auto

lemma is_dir_fs_put_File:
  "\<not> is_dir fs p \<Longrightarrow> is_dir (fs_put fs p (File c t)) q = is_dir fs q"
  by (simp add: is_dir_def map_of_fs_put)

lemma is_dir_fs_put_Dir:
  "is_dir (fs_put fs p (Dir t)) q = (q = p \<or> is_dir fs q)"
  by (auto simp: is_dir_def map_of_fs_put)

lemma parent_error_None: "(parent_error fs p = None) = is_dir fs (butlast p)"
  by (simp add: parent_error_def)

lemma read_text_eq_Inr:
  "(read_text fs p = Inr c) =
     (is_dir fs (butlast p) \<and> p \<noteq> [] \<and> (\<exists>t. map_of fs p = Some (File c t)))"
  by (cases "parent_error fs p")
     (auto simp: read_text_def parent_error_None [symmetric] split: option.splits node.splits)

lemma write_text_eq_Inr:
  "(write_text fs p c t = Inr fs') =
     (is_dir fs (butlast p) \<and> \<not> is_dir fs p \<and> fs' = fs_put fs p (File c t))"
  by (cases "parent_error fs p")
     (auto simp: write_text_def parent_error_None [symmetric])

lemma mkdir_exist_ok_eq_Inr:
  "(mkdir_exist_ok fs p t = Inr fs') =
     (is_dir fs (butlast p) \<and>
      (if is_dir fs p then fs' = fs else map_of fs p = None \<and> fs' = fs_put fs p (Dir t)))"
  by (cases "parent_error fs p")
     (auto simp: mkdir_exist_ok_def parent_error_None [symmetric])

section \<open>Properties of task creation\<close>

lemma files_say [simp]: "files (say l st) = files st"
  by (simp add: say_def)

lemma out_say [simp]: "out (say l st) = out st @ [l]"
  by (simp add: say_def)

lemma call_git_helper_files: "call_git_helper r st = (res, st') \<Longrightarrow> files st' = files st"
  by (auto simp: call_git_helper_def split: proc.splits if_splits)

lemma call_git_helper_Inr:
  "call_git_helper r st = (Inr b, st') \<Longrightarrow>
     \<exists>code. r = Exit code \<and> b = (code = 0) \<and>
            st' = (if code = 0 then st else say GitHelperError st)"
  by (auto simp: call_git_helper_def split: proc.splits if_splits)

lemma finish_task_Inr:
  assumes "finish_task e title project_id project_folder task_id task_file st3 = (Inr r, st')"
  shows "r = Some task_id
         \<and> link_task (files st3) (project_folder @ [''README.md'']) task_id title (clock e)
               = Inr (files st')
         \<and> (\<exists>code. git_helper e = Exit code)"
proof -
  from assms obtain fs4 where
    l: "link_task (files st3) (project_folder @ [''README.md'']) task_id title (clock e) = Inr fs4"
    unfolding finish_task_def
    by (cases "link_task (files st3) (project_folder @ [''README.md'']) task_id title (clock e)")
       auto
  let ?st5 = "say (TaskFileLine task_file)
                (say (CreatedTask task_id project_id) (st3\<lparr>files := fs4\<rparr>))"
  obtain res st6 where h: "call_git_helper (git_helper e) ?st5 = (res, st6)"
    by (cases "call_git_helper (git_helper e) ?st5") auto
  from assms l h obtain b where b: "res = Inr b" and rr: "r = Some task_id" and s: "st' = st6"
    unfolding finish_task_def by (cases res) (auto simp: Let_def)
  from call_git_helper_files [OF h] s have "files st' = fs4" by simp
  moreover from h b have "\<exists>code. git_helper e = Exit code"
    by (auto dest: call_git_helper_Inr)
  ultimately show ?thesis using l rr by simp
qed

lemma commit_task_Inr:
  assumes "commit_task e title project_id project_folder task_id task_file st2 = (Inr r, st')"
  shows "run_checked (git_add e) = None \<and> run_checked (git_commit e) = None
         \<and> finish_task e title project_id project_folder task_id task_file
               (say (GitCommittedTask task_id) st2) = (Inr r, st')"
  using assms unfolding commit_task_def
  by (cases "run_checked (git_add e)"; cases "run_checked (git_commit e)") auto

lemma write_task_Inr:
  assumes "write_task e title project_id status kw project_folder project_name st = (Inr r, st')"
  shows "\<exists>fs1 fs2.
           mkdir_exist_ok (files st)
               (butlast (task_path project_folder (get_next_id ''K'' (files st)) title)) (clock e)
             = Inr fs1
         \<and> write_text fs1 (task_path project_folder (get_next_id ''K'' (files st)) title)
               (task_content e title project_id status kw project_name
                  (get_next_id ''K'' (files st))) (clock e)
             = Inr fs2
         \<and> commit_task e title project_id project_folder (get_next_id ''K'' (files st))
               (task_path project_folder (get_next_id ''K'' (files st)) title)
               (st\<lparr>files := fs2\<rparr>) = (Inr r, st')"
proof -
  let ?tid = "get_next_id ''K'' (files st)"
  let ?tf = "task_path project_folder ?tid title"
  from assms obtain fs1 where m: "mkdir_exist_ok (files st) (butlast ?tf) (clock e) = Inr fs1"
    unfolding write_task_def Let_def
    by (cases "mkdir_exist_ok (files st) (butlast ?tf) (clock e)") auto
  let ?c = "task_content e title project_id status kw project_name ?tid"
  from assms m obtain fs2 where w: "write_text fs1 ?tf ?c (clock e) = Inr fs2"
    unfolding write_task_def Let_def
    by (cases "write_text fs1 ?tf ?c (clock e)") auto
  from assms m w have "commit_task e title project_id project_folder ?tid ?tf
               (st\<lparr>files := fs2\<rparr>) = (Inr r, st')"
    unfolding write_task_def Let_def by simp
  with m w show ?thesis by blast
qed

lemma create_task_Inr_Some:
  assumes "create_task e title project_id_arg status_arg kw st = (Inr (Some task_id), st')"
  shows "\<exists>project_id project_folder rest project_name.
           (if falsy project_id_arg then get_active_project (files st) else Inr project_id_arg)
             = Inr (Some project_id)
         \<and> project_id \<noteq> []
         \<and> glob (files st) PROJECTS_DIR (project_id @ ''-*'') = project_folder # rest
         \<and> project_name_of project_id (last project_folder) = Inr project_name
         \<and> write_task e title project_id
               (case status_arg of None \<Rightarrow> ''next'' | Some x \<Rightarrow> x) kw
               project_folder project_name st = (Inr (Some task_id), st')"
proof -
  let ?res = "if falsy project_id_arg then get_active_project (files st) else Inr project_id_arg"
  from assms obtain po where po: "?res = Inr po"
    unfolding create_task_def Let_def by (cases ?res) auto
  with assms have nf: "\<not> falsy po"
    unfolding create_task_def Let_def by (auto split: if_splits)
  then obtain project_id where pid: "po = Some project_id" "project_id \<noteq> []"
    by (cases po) (auto simp: falsy_def)
  from assms po nf pid obtain project_folder rest where
    g: "glob (files st) PROJECTS_DIR (project_id @ ''-*'') = project_folder # rest"
    unfolding create_task_def Let_def
    by (cases "glob (files st) PROJECTS_DIR (project_id @ ''-*'')") auto
  from assms po nf pid g obtain project_name where
    n: "project_name_of project_id (last project_folder) = Inr project_name"
    unfolding create_task_def Let_def
    by (cases "project_name_of project_id (last project_folder)") auto
  from assms po nf pid g n have
    "write_task e title project_id (case status_arg of None \<Rightarrow> ''next'' | Some x \<Rightarrow> x) kw
        project_folder project_name st = (Inr (Some task_id), st')"
    unfolding create_task_def Let_def by simp
  with po pid g n show ?thesis by blast
qed

lemma link_task_Inr:
  assumes "link_task fs readme task_id title t = Inr fs'"
  shows "fs' = fs \<or>
         (\<exists>c new. read_text fs readme = Inr c \<and> contains ''## Tasks\<newline>'' c
             \<and> re_sub ''## Tasks\<newline>'' (''## Tasks\<newline>'' @ new_task_line task_id title) c
                   = Inr new
             \<and> write_text fs readme new t = Inr fs')"
proof (cases "path_exists fs readme")
  case False
  with assms show ?thesis by (simp add: link_task_def)
next
  case True
  with assms obtain c where c: "read_text fs readme = Inr c"
    unfolding link_task_def by (cases "read_text fs readme") auto
  show ?thesis
  proof (cases "contains ''## Tasks\<newline>'' c")
    case False
    with assms True c show ?thesis by (simp add: link_task_def)
  next
    case h: True
    let ?r = "re_sub ''## Tasks\<newline>'' (''## Tasks\<newline>'' @ new_task_line task_id title) c"
    from assms True c h obtain new where n: "?r = Inr new"
      unfolding link_task_def by (cases ?r) auto
    with assms True c h have "write_text fs readme new t = Inr fs'"
      by (simp add: link_task_def)
    with c h n show ?thesis by blast
  qed
qed

lemma link_task_frame:
  assumes "link_task fs readme task_id title t = Inr fs'" and "p \<noteq> readme"
  shows "map_of fs' p = map_of fs p"
  using link_task_Inr [OF assms(1)] assms(2)
  by (auto simp: write_text_eq_Inr map_of_fs_put)

lemma link_task_is_dir:
  assumes "link_task fs readme task_id title t = Inr fs'"
  shows "is_dir fs' p = is_dir fs p"
  using link_task_Inr [OF assms]
  by (auto simp: write_text_eq_Inr is_dir_fs_put_File)

lemma split_char_nonempty: "split_char sep cur s \<noteq> []"
  by (induction s arbitrary: cur) auto

lemma split_char_hd:
  "hd (split_char sep cur s) = cur @ takeWhile (\<lambda>c. c \<noteq> sep) s"
  by (induction s arbitrary: cur) auto

lemma task_path_shape:
  "\<exists>c cs. task_path project_folder (''K'' @ ds) title
             = project_folder @ ''tasks'' # c # cs"
proof -
  let ?s = "(''K'' @ ds) @ ''-'' @ task_slug title @ ''.md''"
  let ?parts = "split_char CHR ''/'' [] ?s"
  obtain x xs where p: "?parts = x # xs"
    using split_char_nonempty [of "CHR ''/''" "[]" ?s] by (cases ?parts) auto
  from split_char_hd [of "CHR ''/''" "[]" ?s] p
  have "x = takeWhile (\<lambda>c. c \<noteq> CHR ''/'') ?s" by simp
  then obtain r where "x = CHR ''K'' # r" by simp
  then have "x \<noteq> []" "x \<noteq> ''.''" by auto
  with p show ?thesis
    by (simp add: task_path_def path_join_def)
qed

lemma get_next_id_K: "\<exists>ds. get_next_id ''K'' fs = ''K'' @ ds"
  by (simp add: get_next_id_def Let_def)

lemma fmt03_1: "fmt03 (Suc 0) = ''001''"
  by code_simp

lemma starts_with_append: "starts_with xs (xs @ ys)"
  by (induction xs) auto

text \<open>
  C5, as the code has it. The default of \<open>status\<close> is \<open>next\<close>: when \<open>create_task\<close> is
  called without a status and returns the identifier of the task, the record file of the
  task, below the folder of the project, holds the template filled in with
  \<open>status: next\<close>; the identifier is the one \<open>get_next_id\<close> gives, which is \<open>K001\<close> when
  the workspace has no task record yet.
\<close>

theorem create_task_default_status:
  assumes "create_task e title project_id_arg None kw st = (Inr (Some task_id), st')"
  shows "\<exists>project_id project_folder rest project_name content.
           glob (files st) PROJECTS_DIR (project_id @ ''-*'') = project_folder # rest
         \<and> read_text (files st') (task_path project_folder task_id title) = Inr content
         \<and> content = task_content e title project_id ''next'' kw project_name task_id
         \<and> starts_with (''---\<newline>id: '' @ task_id @ ''\<newline>project: '' @ project_id
                          @ ''\<newline>title: '' @ title @ ''\<newline>status: next\<newline>'') content
         \<and> task_id = get_next_id ''K'' (files st)
         \<and> (rglob (files st) PROJECTS_DIR ''K[0-9]*.md'' = [] \<longrightarrow> task_id = ''K001'')"
proof -
  from create_task_Inr_Some [OF assms] obtain project_id project_folder rest project_name where
    g: "glob (files st) PROJECTS_DIR (project_id @ ''-*'') = project_folder # rest" and
    w: "write_task e title project_id ''next'' kw project_folder project_name st
          = (Inr (Some task_id), st')"
    by auto
  let ?tid = "get_next_id ''K'' (files st)"
  let ?tf = "task_path project_folder ?tid title"
  let ?c = "task_content e title project_id ''next'' kw project_name ?tid"
  from write_task_Inr [OF w] obtain fs1 fs2 where
    m: "mkdir_exist_ok (files st) (butlast ?tf) (clock e) = Inr fs1" and
    wt: "write_text fs1 ?tf ?c (clock e) = Inr fs2" and
    ct: "commit_task e title project_id project_folder ?tid ?tf (st\<lparr>files := fs2\<rparr>)
           = (Inr (Some task_id), st')"
    by auto
  from commit_task_Inr [OF ct] have
    ft: "finish_task e title project_id project_folder ?tid ?tf
           (say (GitCommittedTask ?tid) (st\<lparr>files := fs2\<rparr>)) = (Inr (Some task_id), st')"
    by simp
  from finish_task_Inr [OF ft] have
    tid: "task_id = ?tid" and
    lt: "link_task fs2 (project_folder @ [''README.md'']) ?tid title (clock e) = Inr (files st')"
    by auto
  obtain ds where ds: "?tid = ''K'' @ ds" using get_next_id_K by blast
  from task_path_shape [of project_folder ds title] ds obtain c cs where
    shape: "?tf = project_folder @ ''tasks'' # c # cs" by auto
  then have ne: "?tf \<noteq> project_folder @ [''README.md'']" by simp
  from wt have d: "is_dir fs1 (butlast ?tf)" and nd: "\<not> is_dir fs1 ?tf"
    and fs2: "fs2 = fs_put fs1 ?tf (File ?c (clock e))"
    by (simp_all add: write_text_eq_Inr)
  from d nd fs2 have d2: "is_dir fs2 (butlast ?tf)" by (simp add: is_dir_fs_put_File)
  from fs2 have m2: "map_of fs2 ?tf = Some (File ?c (clock e))" by (simp add: map_of_fs_put)
  from link_task_is_dir [OF lt] d2 have d3: "is_dir (files st') (butlast ?tf)" by simp
  from link_task_frame [OF lt ne] m2 have m3: "map_of (files st') ?tf = Some (File ?c (clock e))"
    by simp
  from shape have "?tf \<noteq> []" by simp
  with d3 m3 have rd: "read_text (files st') ?tf = Inr ?c"
    by (simp add: read_text_eq_Inr)
  have sw: "starts_with (''---\<newline>id: '' @ ?tid @ ''\<newline>project: '' @ project_id
                          @ ''\<newline>title: '' @ title @ ''\<newline>status: next\<newline>'') ?c"
  proof -
    have "\<exists>r. ?c = (''---\<newline>id: '' @ ?tid @ ''\<newline>project: '' @ project_id
                          @ ''\<newline>title: '' @ title @ ''\<newline>status: next\<newline>'') @ r"
      by (simp add: task_content_def TASK_TEMPLATE_def)
    then show ?thesis using starts_with_append by metis
  qed
  have k: "rglob (files st) PROJECTS_DIR ''K[0-9]*.md'' = [] \<longrightarrow> ?tid = ''K001''"
    by (simp add: get_next_id_def fmt03_1)
  from g rd sw k tid show ?thesis by blast
qed

theorem create_task_default_status_witness:
  "create_task example_env ''Write spec'' (Some ''P001'') None no_kwargs example_state
     = (Inr (Some ''K001''),
        snd (create_task example_env ''Write spec'' (Some ''P001'') None no_kwargs example_state))
   \<and> (\<exists>project_id project_folder rest project_name content.
           glob (files example_state) PROJECTS_DIR (project_id @ ''-*'') = project_folder # rest
         \<and> read_text
               (files (snd (create_task example_env ''Write spec'' (Some ''P001'') None no_kwargs
                              example_state)))
               (task_path project_folder ''K001'' ''Write spec'') = Inr content
         \<and> content = task_content example_env ''Write spec'' project_id ''next'' no_kwargs
                         project_name ''K001''
         \<and> starts_with (''---\<newline>id: '' @ ''K001'' @ ''\<newline>project: '' @ project_id
                          @ ''\<newline>title: '' @ ''Write spec'' @ ''\<newline>status: next\<newline>'') content
         \<and> ''K001'' = get_next_id ''K'' (files example_state)
         \<and> (rglob (files example_state) PROJECTS_DIR ''K[0-9]*.md'' = [] \<longrightarrow> ''K001'' = ''K001''))"
proof -
  have f: "fst (create_task example_env ''Write spec'' (Some ''P001'') None no_kwargs
                 example_state) = Inr (Some ''K001'')"
    by code_simp
  then have h: "create_task example_env ''Write spec'' (Some ''P001'') None no_kwargs example_state
     = (Inr (Some ''K001''),
        snd (create_task example_env ''Write spec'' (Some ''P001'') None no_kwargs example_state))"
    by (metis prod.collapse)
  from create_task_default_status [OF h] h show ?thesis by (rule_tac conjI)
qed

text \<open>The first task of the example workspace, created without a status: its record
  says \<open>status: next\<close> and nowhere \<open>status: inbox\<close>.\<close>

theorem create_task_status_inbox_counterexample:
  "fst (create_task example_env ''Write spec'' (Some ''P001'') None no_kwargs example_state)
     = Inr (Some ''K001'')
   \<and> contains ''status: next''
        (file_text
          (files (snd (create_task example_env ''Write spec'' (Some ''P001'') None no_kwargs
                         example_state)))
          [''projects'', ''P001-x'', ''tasks'', ''K001-write-spec.md''])
   \<and> \<not> contains ''status: inbox''
        (file_text
          (files (snd (create_task example_env ''Write spec'' (Some ''P001'') None no_kwargs
                         example_state)))
          [''projects'', ''P001-x'', ''tasks'', ''K001-write-spec.md''])"
  by code_simp

end
